theory Spec2Isabelle
  imports Main "HOL-Library.Word" "HOL-Library.Sublist"
begin

section \<open>JavaScript strings\<close>

text \<open>
  A JavaScript string is a sequence of 16-bit UTF-16 code units: \<open>length\<close>, \<open>includes\<close>,
  \<open>repeat\<close> and a regular expression without the \<open>u\<close> flag all count and match code
  units. String literals of the source are ASCII and are written through \<open>js\<close>.
\<close>

type_synonym code_unit = "16 word"
type_synonym jsstring = "code_unit list"

definition js :: "string \<Rightarrow> jsstring" where
  "js s = map (\<lambda>c. of_nat (of_char c)) s"

text \<open>
  \<open>String.prototype.toLowerCase\<close> belongs to the language runtime, not to the repository.
  It applies the Unicode lower-case mapping, with the whole table of the cased scripts and
  a rule that depends on the context (the Greek final sigma).

  \<open>toLowerCase\<close> below is the part of that mapping which the file name of the export can
  see: Basic Latin and the Latin-1 Supplement, and the three code points outside them whose
  lower case lies inside them or is longer than one code unit: U+0130 (capital I with dot
  above, lower case \<open>i\<close> followed by U+0307), U+212A (Kelvin sign, lower case \<open>k\<close>) and
  U+212B (Angstrom sign, lower case U+00E5). Every other code unit is passed through. The
  export applies it to letters, digits and underscores of Basic Latin only, where it is the
  runtime's function; in the specification's order of the derivation every code unit
  outside Basic Latin ends as an underscore, whatever small letter the runtime would give
  it, and U+0130 and U+212A are the only code units outside Basic Latin whose lower case
  holds a letter of Basic Latin. The search filter meets arbitrary text and does not use
  this definition: it takes the runtime's function as a parameter.
\<close>

definition lowerUnit :: "code_unit \<Rightarrow> jsstring" where
  "lowerUnit c =
     (if 0x41 \<le> c \<and> c \<le> 0x5A then [c + 0x20]
      else if 0xC0 \<le> c \<and> c \<le> 0xDE \<and> c \<noteq> 0xD7 then [c + 0x20]
      else if c = 0x130 then [0x69, 0x307]
      else if c = 0x212A then [0x6B]
      else if c = 0x212B then [0xE5]
      else [c])"

definition toLowerCase :: "jsstring \<Rightarrow> jsstring" where
  "toLowerCase s = concat (map lowerUnit s)"

text \<open>\<open>s.includes(q)\<close>: \<open>q\<close> occurs in \<open>s\<close> as a contiguous run of code units.\<close>

fun includes_js :: "jsstring \<Rightarrow> jsstring \<Rightarrow> bool" where
  "includes_js [] q = (q = [])"
| "includes_js (c # s) q = (prefix q (c # s) \<or> includes_js s q)"

section \<open>Notes\<close>

text \<open>
  A row of the table \<open>public.notes\<close> as \<open>select('*')\<close> hands it to the pages. Nullable
  columns are options. The columns \<open>id\<close> and \<open>keywords\<close> are named \<open>id_note\<close> and \<open>keywords_note\<close>.
\<close>

datatype summary_length = Short | Medium | Long
datatype summary_tone = Academic | Casual | Professional

record Note =
  id_note :: jsstring
  user_id :: jsstring
  folder_id :: "jsstring option"
  title :: jsstring
  original_content :: jsstring
  summary :: "jsstring option"
  keywords_note :: "jsstring list option"
  summary_length :: "summary_length option"
  summary_tone :: "summary_tone option"
  is_bullet_points :: "bool option"
  created_at :: jsstring
  updated_at :: jsstring

section \<open>Client-side search filter (Notes.tsx)\<close>









section \<open>Export of a note (note detail page)\<close>

text \<open>
  What the runtime can throw in \<open>handleExport\<close>: a \<open>TypeError\<close> when a property of
  \<open>null\<close> is read, a \<open>RangeError\<close> when \<open>repeat\<close> gets a negative count.
\<close>

datatype js_error = TypeError | RangeError

definition prop_read :: "'a option \<Rightarrow> js_error + 'a" where
  "prop_read v = (case v of None \<Rightarrow> Inl TypeError | Some x \<Rightarrow> Inr x)"

definition repeat_js :: "jsstring \<Rightarrow> int \<Rightarrow> js_error + jsstring" where
  "repeat_js s count =
     (if count < 0 then Inl RangeError else Inr (concat (replicate (nat count) s)))"

fun join :: "jsstring \<Rightarrow> jsstring list \<Rightarrow> jsstring" where
  "join sep [] = []"
| "join sep [x] = x"
| "join sep (x # y # ys) = x @ sep @ join sep (y # ys)"

text \<open>\<open>v || d\<close> on a nullable string: \<open>null\<close> and the empty string are falsy.\<close>

definition or_else :: "jsstring option \<Rightarrow> jsstring \<Rightarrow> jsstring" where
  "or_else v d = (case v of None \<Rightarrow> d | Some s \<Rightarrow> if s = [] then d else s)"

datatype export_format = Txt | Md

definition format_name :: "export_format \<Rightarrow> jsstring" where
  "format_name format = (case format of Txt \<Rightarrow> js ''txt'' | Md \<Rightarrow> js ''md'')"

text \<open>
  The class \<open>[a-z0-9]\<close> under the flag \<open>i\<close> and without the flag \<open>u\<close>: a code unit is
  compared after the regular expression's canonicalisation, which takes it to its upper
  case unless that leads from outside ASCII into ASCII. The class therefore holds the
  ASCII letters of both cases and the digits, and no other code unit.
\<close>

definition in_class_alnum_i :: "code_unit \<Rightarrow> bool" where
  "in_class_alnum_i c =
     ((0x61 \<le> c \<and> c \<le> 0x7A) \<or> (0x41 \<le> c \<and> c \<le> 0x5A) \<or> (0x30 \<le> c \<and> c \<le> 0x39))"

text \<open>\<open>s.replace(/[^a-z0-9]/gi, '_')\<close>\<close>

definition replace_non_alnum :: "jsstring \<Rightarrow> jsstring" where
  "replace_non_alnum s = map (\<lambda>c. if in_class_alnum_i c then c else 0x5F) s"

definition filename_stem :: "jsstring \<Rightarrow> jsstring" where
  "filename_stem t = toLowerCase (replace_non_alnum t)"

definition exportFilename :: "export_format \<Rightarrow> Note \<Rightarrow> jsstring" where
  "exportFilename format n = filename_stem (title n) @ js ''.'' @ format_name format"

text \<open>
  The specification's filename derivation, in its order: lower-case the title, then
  replace every character outside \<open>[a-z0-9]\<close> by an underscore.
\<close>

definition in_class_lower_alnum :: "code_unit \<Rightarrow> bool" where
  "in_class_lower_alnum c = ((0x61 \<le> c \<and> c \<le> 0x7A) \<or> (0x30 \<le> c \<and> c \<le> 0x39))"

definition underscore_outside :: "code_unit \<Rightarrow> code_unit" where
  "underscore_outside c = (if in_class_lower_alnum c then c else 0x5F)"

definition derive_spec :: "jsstring \<Rightarrow> jsstring" where
  "derive_spec t = map underscore_outside (toLowerCase t)"

text \<open>
  The document that \<open>handleExport\<close> builds in \<open>content\<close>. The keyword section is
  appended under the guard \<open>note.keywords && note.keywords.length > 0\<close>; \<open>&&\<close> does not
  evaluate its right operand when \<open>note.keywords\<close> is \<open>null\<close>.
\<close>

definition exportContent :: "export_format \<Rightarrow> Note \<Rightarrow> js_error + jsstring" where
  "exportContent format n =
     (case format of
        Md \<Rightarrow>
          (let content = js ''# '' @ title n @ js ''\<newline>\<newline>## Summary\<newline>\<newline>''
                         @ or_else (summary n) (js ''No summary'') @ js ''\<newline>\<newline>''
           in case (if keywords_note n = None then Inr content
                    else case prop_read (keywords_note n) of
                      Inl e \<Rightarrow> Inl e
                    | Inr ks \<Rightarrow>
                        if length ks > 0
                        then Inr (content @ js ''## Keywords\<newline>\<newline>''
                                  @ join (js ''\<newline>'') (map (\<lambda>k. js ''- '' @ k) ks)
                                  @ js ''\<newline>\<newline>'')
                        else Inr content) of
                Inl e \<Rightarrow> Inl e
              | Inr content \<Rightarrow>
                  Inr (content @ js ''## Original Content\<newline>\<newline>'' @ original_content n))
      | Txt \<Rightarrow>
          (case repeat_js (js ''='') (int (length (title n))) of
             Inl e \<Rightarrow> Inl e
           | Inr underline \<Rightarrow>
               (let content = title n @ js ''\<newline>'' @ underline @ js ''\<newline>\<newline>Summary:\<newline>''
                              @ or_else (summary n) (js ''No summary'') @ js ''\<newline>\<newline>''
                in case (if keywords_note n = None then Inr content
                         else case prop_read (keywords_note n) of
                           Inl e \<Rightarrow> Inl e
                         | Inr ks \<Rightarrow>
                             if length ks > 0
                             then Inr (content @ js ''Keywords: '' @ join (js '', '') ks
                                       @ js ''\<newline>\<newline>'')
                             else Inr content) of
                     Inl e \<Rightarrow> Inl e
                   | Inr content \<Rightarrow>
                       Inr (content @ js ''Original Content:\<newline>'' @ original_content n))))"

section \<open>Page state and effects\<close>

text \<open>
  A handler takes the page's state and returns the new state with the effects it had on
  the outside, in order: notifications, navigation, console output, the file download and
  the call of the remote \<open>summarize\<close> function.
\<close>

record summarize_body =
  body_content :: jsstring
  body_length :: summary_length
  body_tone :: summary_tone
  body_bulletPoints :: bool

datatype variant = Default | Destructive

datatype effect =
    Toast jsstring "jsstring option" variant
  | Navigate jsstring
  | ConsoleError jsstring
  | Download jsstring jsstring
  | Invoke jsstring summarize_body

text \<open>\<open>handleExport\<close>: nothing happens while no note is loaded.\<close>

definition handleExport :: "export_format \<Rightarrow> Note option \<Rightarrow> js_error + effect list" where
  "handleExport format note_st =
     (case note_st of
        None \<Rightarrow> Inr []
      | Some n \<Rightarrow>
          (let filename = exportFilename format n
           in case exportContent format n of
                Inl e \<Rightarrow> Inl e
              | Inr content \<Rightarrow>
                  Inr [Download filename content,
                       Toast (js ''Note exported'') (Some (js ''Saved as '' @ filename)) Default]))"

text \<open>
  Lines of a document, split at U+000A, to say where a section heading stands.
\<close>

fun split_lines :: "jsstring \<Rightarrow> jsstring list" where
  "split_lines [] = [[]]"
| "split_lines (c # s) =
     (if c = 0x0A then [] # split_lines s
      else (case split_lines s of [] \<Rightarrow> [[c]] | l # ls \<Rightarrow> (c # l) # ls))"

definition keywords_heading :: "export_format \<Rightarrow> jsstring \<Rightarrow> bool" where
  "keywords_heading format l =
     (case format of Txt \<Rightarrow> prefix (js ''Keywords:'') l | Md \<Rightarrow> l = js ''## Keywords'')"

definition has_keywords_heading :: "export_format \<Rightarrow> jsstring \<Rightarrow> bool" where
  "has_keywords_heading format s = list_ex (keywords_heading format) (split_lines s)"

section \<open>Fetching one note (note detail page)\<close>

text \<open>
  The table \<open>public.notes\<close> is a list of rows. A select under a session sees the rows
  that the policy \<open>Users can view their own notes\<close> admits, \<open>auth.uid() = user_id\<close>;
  \<open>eq\<close> keeps the rows with the given column value; \<open>single\<close> is an error unless
  exactly one row is left.
\<close>

record User =
  id_user :: jsstring

datatype postgrest_error = NotExactlyOneRow

definition visible_notes :: "jsstring \<Rightarrow> Note list \<Rightarrow> Note list" where
  "visible_notes uid tbl = filter (\<lambda>r. uid = user_id r) tbl"

definition eq_id :: "jsstring \<Rightarrow> Note list \<Rightarrow> Note list" where
  "eq_id v rows = filter (\<lambda>r. id_note r = v) rows"

definition eq_user_id :: "jsstring \<Rightarrow> Note list \<Rightarrow> Note list" where
  "eq_user_id v rows = filter (\<lambda>r. user_id r = v) rows"

definition single :: "Note list \<Rightarrow> postgrest_error + Note" where
  "single rows = (case rows of [r] \<Rightarrow> Inr r | _ \<Rightarrow> Inl NotExactlyOneRow)"

record detail_state =
  note_st :: "Note option"
  loading :: bool
  copied_st :: bool

text \<open>
  \<open>fetchNote\<close> with the table it queries, the session's user and the route parameter
  \<open>id\<close>. \<open>!id\<close> holds for a missing and for an empty parameter.
\<close>

definition fetchNote ::
  "Note list \<Rightarrow> User option \<Rightarrow> jsstring option \<Rightarrow> detail_state \<Rightarrow> detail_state \<times> effect list"
where
  "fetchNote notes_table user id_param st =
     (case user of
        None \<Rightarrow> (st, [])
      | Some u \<Rightarrow>
          (case id_param of
             None \<Rightarrow> (st, [])
           | Some i \<Rightarrow>
               if i = [] then (st, [])
               else
                 (case single (eq_user_id (id_user u) (eq_id i
                         (visible_notes (id_user u) notes_table))) of
                    Inl e \<Rightarrow>
                      (st\<lparr>loading := False\<rparr>,
                       [ConsoleError (js ''Error fetching note:''), Navigate (js ''/notes'')])
                  | Inr data \<Rightarrow> (st\<lparr>note_st := Some data, loading := False\<rparr>, []))))"

text \<open>The primary key of \<open>public.notes\<close>: no two rows share an \<open>id\<close>.\<close>

definition primary_key :: "Note list \<Rightarrow> bool" where
  "primary_key tbl = distinct (map id_note tbl)"

section \<open>Requesting a summary (NewNote.tsx)\<close>

text \<open>
  \<open>String.prototype.trim\<close> removes white space and line terminators from both ends.
\<close>

definition is_white_space :: "code_unit \<Rightarrow> bool" where
  "is_white_space c =
     (c = 0x09 \<or> c = 0x0A \<or> c = 0x0B \<or> c = 0x0C \<or> c = 0x0D \<or> c = 0x20 \<or> c = 0xA0
      \<or> c = 0x1680 \<or> (0x2000 \<le> c \<and> c \<le> 0x200A) \<or> c = 0x2028 \<or> c = 0x2029
      \<or> c = 0x202F \<or> c = 0x205F \<or> c = 0x3000 \<or> c = 0xFEFF)"

definition trim :: "jsstring \<Rightarrow> jsstring" where
  "trim s = rev (dropWhile is_white_space (rev (dropWhile is_white_space s)))"

text \<open>
  What \<open>supabase.functions.invoke\<close> resolves to: \<open>data\<close> and \<open>error\<close>. The client
  reports a transport failure as \<open>FunctionsFetchError\<close>, a relay failure as
  \<open>FunctionsRelayError\<close> and a response of the function outside 2xx as
  \<open>FunctionsHttpError\<close>, each with a message. \<open>data\<close> is untyped: it can be \<open>null\<close>,
  and each field the page reads can be missing.
\<close>

datatype functions_error =
    FunctionsFetchError jsstring
  | FunctionsRelayError jsstring
  | FunctionsHttpError jsstring

record summarize_data =
  data_title :: "jsstring option"
  data_summary :: "jsstring option"
  data_keywords :: "jsstring list option"

record invoke_result =
  data :: "summarize_data option"
  error :: "functions_error option"

text \<open>
  The value caught by \<open>handleSummarize\<close>: the error the client returned, or the
  \<open>TypeError\<close> of reading \<open>data.title\<close> on \<open>null\<close>, whose message is the engine's
  (here that of V8, with the name of the property between apostrophes, U+0027).
\<close>

datatype thrown = ThrownFunctionsError functions_error | ThrownTypeError

fun message :: "thrown \<Rightarrow> jsstring" where
  "message (ThrownFunctionsError (FunctionsFetchError m)) = m"
| "message (ThrownFunctionsError (FunctionsRelayError m)) = m"
| "message (ThrownFunctionsError (FunctionsHttpError m)) = m"
| "message ThrownTypeError =
     js ''Cannot read properties of null (reading '' @ [0x27] @ js ''title'' @ [0x27] @ js '')''"

record summary_result =
  result_title :: "jsstring option"
  result_summary :: "jsstring option"
  result_keywords :: "jsstring list option"

record newnote_state =
  content :: jsstring
  summaryLength :: summary_length
  summaryTone :: summary_tone
  isBulletPoints :: bool
  isProcessing :: bool
  result :: "summary_result option"
  copied :: bool

text \<open>The validation at the head of \<open>handleSummarize\<close>: \<open>!content.trim()\<close>.\<close>

definition content_missing :: "newnote_state \<Rightarrow> bool" where
  "content_missing st = (trim (content st) = [])"

text \<open>
  The state while the request is pending (after \<open>setIsProcessing(true)\<close> and
  \<open>setResult(null)\<close>) with the call that is issued.
\<close>

definition summarize_request :: "newnote_state \<Rightarrow> newnote_state \<times> effect list" where
  "summarize_request st =
     (st\<lparr>isProcessing := True, result := None\<rparr>,
      [Invoke (js ''summarize'')
         \<lparr>body_content = content st, body_length = summaryLength st,
          body_tone = summaryTone st, body_bulletPoints = isBulletPoints st\<rparr>])"

text \<open>What the \<open>try\<close> block does with the response: the thrown value, or the new result.\<close>

definition summarize_try :: "invoke_result \<Rightarrow> thrown + summary_result" where
  "summarize_try resp =
     (case error resp of
        Some e \<Rightarrow> Inl (ThrownFunctionsError e)
      | None \<Rightarrow>
          (case data resp of
             None \<Rightarrow> Inl ThrownTypeError
           | Some d \<Rightarrow>
               Inr \<lparr>result_title = data_title d, result_summary = data_summary d,
                    result_keywords = data_keywords d\<rparr>))"

definition summarize_settle ::
  "invoke_result \<Rightarrow> newnote_state \<Rightarrow> newnote_state \<times> effect list"
where
  "summarize_settle resp st =
     (case summarize_try resp of
        Inr r \<Rightarrow>
          (st\<lparr>result := Some r, isProcessing := False\<rparr>,
           [Toast (js ''Summary generated!'')
              (Some (js ''Your content has been summarized successfully.'')) Default])
      | Inl err \<Rightarrow>
          (st\<lparr>isProcessing := False\<rparr>,
           [ConsoleError (js ''Summarization error:''),
            Toast (js ''Summarization failed'')
              (Some (or_else (Some (message err)) (js ''An error occurred while summarizing.'')))
              Destructive]))"

definition handleSummarize ::
  "invoke_result \<Rightarrow> newnote_state \<Rightarrow> newnote_state \<times> effect list"
where
  "handleSummarize resp st =
     (if content_missing st
      then (st, [Toast (js ''Content required'')
                   (Some (js ''Please enter some text to summarize.'')) Destructive])
      else
        (let (pending, issued) = summarize_request st;
             (settled, shown) = summarize_settle resp pending
         in (settled, issued @ shown)))"

text \<open>
  The page's render reads \<open>result.keywords.length\<close> once a result is set and the request
  is no longer pending.
\<close>

definition render_keywords :: "newnote_state \<Rightarrow> js_error + bool" where
  "render_keywords st =
     (if isProcessing st then Inr False
      else case result st of
        None \<Rightarrow> Inr False
      | Some r \<Rightarrow>
          (case prop_read (result_keywords r) of
             Inl e \<Rightarrow> Inl e
           | Inr ks \<Rightarrow> Inr (length ks > 0)))"

definition is_invoke :: "effect \<Rightarrow> bool" where
  "is_invoke e = (case e of Invoke name body \<Rightarrow> True | _ \<Rightarrow> False)"

definition is_error_toast :: "effect \<Rightarrow> bool" where
  "is_error_toast e = (case e of Toast t d v \<Rightarrow> v = Destructive | _ \<Rightarrow> False)"


section \<open>Notions used in the properties\<close>

text \<open>
  The image of one code unit of the title in the file name: an ASCII capital becomes the
  small letter, a small ASCII letter or digit stays, anything else becomes an underscore.
\<close>

definition stem_unit :: "code_unit \<Rightarrow> code_unit" where
  "stem_unit c =
     (if 0x41 \<le> c \<and> c \<le> 0x5A then c + 0x20
      else if in_class_lower_alnum c then c else 0x5F)"

text \<open>
  The text that the export puts between the summary and the original content: nothing for
  a missing or empty keyword list, the keyword section otherwise.
\<close>

definition keywords_text :: "export_format \<Rightarrow> jsstring list option \<Rightarrow> jsstring" where
  "keywords_text format kws =
     (case kws of
        None \<Rightarrow> []
      | Some ks \<Rightarrow>
          if ks = [] then []
          else (case format of
                  Txt \<Rightarrow> js ''Keywords: '' @ join (js '', '') ks @ js ''\<newline>\<newline>''
                | Md \<Rightarrow> js ''## Keywords\<newline>\<newline>''
                        @ join (js ''\<newline>'') (map (\<lambda>k. js ''- '' @ k) ks)
                        @ js ''\<newline>\<newline>''))"

text \<open>No line of the note's own text looks like the heading of a keyword section.\<close>

definition no_heading_in_fields :: "export_format \<Rightarrow> Note \<Rightarrow> bool" where
  "no_heading_in_fields format n =
     (\<not> has_keywords_heading format (title n)
      \<and> (case summary n of None \<Rightarrow> True | Some s \<Rightarrow> \<not> has_keywords_heading format s)
      \<and> \<not> has_keywords_heading format (original_content n))"

text \<open>Sample data: two notes of two owners, a session of the second owner, a draft.\<close>

definition example_note :: Note where
  "example_note =
     \<lparr>id_note = js ''6f1c'', user_id = js ''alice'', folder_id = None,
      title = js ''Q1 Report!!'', original_content = js ''Revenue grew.'',
      summary = None, keywords_note = None, summary_length = Some Medium,
      summary_tone = Some Professional, is_bullet_points = Some False,
      created_at = js ''2026-01-03'', updated_at = js ''2026-01-03''\<rparr>"

definition tagged_note :: Note where
  "tagged_note =
     \<lparr>id_note = js ''9a2e'', user_id = js ''bob'', folder_id = None,
      title = js ''Plan'', original_content = js ''Ship it.'',
      summary = Some [], keywords_note = Some [js ''ship'', js ''plan''],
      summary_length = Some Short, summary_tone = Some Casual,
      is_bullet_points = Some False,
      created_at = js ''2026-01-04'', updated_at = js ''2026-01-04''\<rparr>"

definition bob :: User where
  "bob = \<lparr>id_user = js ''bob''\<rparr>"

definition draft :: newnote_state where
  "draft =
     \<lparr>content = js ''The quick brown fox'', summaryLength = Short, summaryTone = Casual,
      isBulletPoints = False, isProcessing = False, result = None, copied = False\<rparr>"

definition fields_missing :: invoke_result where
  "fields_missing =
     \<lparr>data = Some \<lparr>data_title = None, data_summary = None, data_keywords = None\<rparr>,
      error = None\<rparr>"

section \<open>Properties of strings\<close>


lemma includes_js_Nil [simp]: "includes_js s []"
  by (cases s) simp_all


lemma toLowerCase_Nil [simp]: "toLowerCase [] = []"
  by (simp add: toLowerCase_def)

lemma toLowerCase_Cons: "toLowerCase (c # s) = lowerUnit c @ toLowerCase s"
  by (simp add: toLowerCase_def)



section \<open>Properties of the search filter\<close>













section \<open>Properties of the file name\<close>

lemma lowerUnit_replace: "lowerUnit (if in_class_alnum_i c then c else 0x5F) = [stem_unit c]"
  unfolding lowerUnit_def in_class_alnum_i_def in_class_lower_alnum_def stem_unit_def
  by (simp; unat_arith; simp)

lemma filename_stem_map: "filename_stem t = map stem_unit t"
  by (induction t)
     (simp_all add: filename_stem_def replace_non_alnum_def toLowerCase_Cons lowerUnit_replace)

lemma replace_lowerUnit:
  "c \<noteq> 0x130 \<Longrightarrow> c \<noteq> 0x212A \<Longrightarrow> map underscore_outside (lowerUnit c) = [stem_unit c]"
  unfolding lowerUnit_def in_class_alnum_i_def in_class_lower_alnum_def stem_unit_def
    underscore_outside_def
  by (simp; unat_arith; simp)

lemma derive_spec_map:
  "\<forall>c \<in> set t. c \<noteq> 0x130 \<and> c \<noteq> 0x212A \<Longrightarrow> derive_spec t = map stem_unit t"
  by (induction t) (simp_all add: derive_spec_def toLowerCase_Cons replace_lowerUnit)

lemma stem_unit_idem: "stem_unit (stem_unit c) = stem_unit c"
  unfolding in_class_lower_alnum_def stem_unit_def
  by (simp; unat_arith; simp)

lemma stem_unit_plain: "stem_unit c \<noteq> 0x130 \<and> stem_unit c \<noteq> 0x212A"
  unfolding in_class_lower_alnum_def stem_unit_def
  by (simp; unat_arith; simp)

lemma stem_unit_underscore: "stem_unit (underscore_outside c) = underscore_outside c"
  unfolding in_class_lower_alnum_def stem_unit_def underscore_outside_def
  by (simp; unat_arith; simp)

lemma underscore_plain: "underscore_outside c \<noteq> 0x130 \<and> underscore_outside c \<noteq> 0x212A"
  unfolding in_class_lower_alnum_def underscore_outside_def
  by (simp; unat_arith; simp)

lemma derive_spec_idem: "derive_spec (derive_spec s) = derive_spec s"
proof -
  have "\<forall>c \<in> set (derive_spec s). c \<noteq> 0x130 \<and> c \<noteq> 0x212A"
    unfolding derive_spec_def using underscore_plain by auto
  then have "derive_spec (derive_spec s) = map stem_unit (derive_spec s)"
    by (rule derive_spec_map)
  also have "\<dots> = derive_spec s"
    unfolding derive_spec_def by (simp add: stem_unit_underscore)
  finally show ?thesis .
qed

text \<open>
  C2, as the specification has it, fails: for a title that begins with U+0130 the file name
  of the export has an underscore where lower-casing first and replacing afterwards gives
  \<open>i\<close> and an underscore, one character more.
\<close>

theorem exportFilename_order_counterexample:
  "exportFilename Txt (example_note\<lparr>title := 0x130 # js ''stanbul''\<rparr>) = js ''_stanbul.txt''
   \<and> derive_spec (0x130 # js ''stanbul'') @ js ''.'' @ format_name Txt = js ''i_stanbul.txt''
   \<and> exportFilename Txt (example_note\<lparr>title := 0x130 # js ''stanbul''\<rparr>)
       \<noteq> derive_spec (title (example_note\<lparr>title := 0x130 # js ''stanbul''\<rparr>))
           @ js ''.'' @ format_name Txt"
  by (simp add: exportFilename_def filename_stem_map stem_unit_def in_class_lower_alnum_def
      derive_spec_def underscore_outside_def toLowerCase_def lowerUnit_def format_name_def
      js_def)

text \<open>
  C2, amended. The file name is the title with every code unit outside \<open>[A-Za-z0-9]\<close>
  replaced by an underscore and the ASCII capitals lower-cased, one character for each code
  unit of the title, followed by a dot and the extension \<open>txt\<close> or \<open>md\<close>. For a title
  without U+0130 and U+212A this is the lower-cased title with every character outside
  \<open>[a-z0-9]\<close> replaced by an underscore. The title \<open>Q1 Report!!\<close> exported as plain
  text gives \<open>q1_report__.txt\<close>.
\<close>

theorem exportFilename_derivation:
  "exportFilename format n = map stem_unit (title n) @ js ''.'' @ format_name format
   \<and> ((\<forall>c \<in> set (title n). c \<noteq> 0x130 \<and> c \<noteq> 0x212A) \<longrightarrow>
        exportFilename format n = derive_spec (title n) @ js ''.'' @ format_name format)
   \<and> format_name Txt = js ''txt'' \<and> format_name Md = js ''md''
   \<and> exportFilename Txt (n\<lparr>title := js ''Q1 Report!!''\<rparr>) = js ''q1_report__.txt''"
proof -
  have a: "exportFilename format n = map stem_unit (title n) @ js ''.'' @ format_name format"
    by (simp add: exportFilename_def filename_stem_map)
  have b: "(\<forall>c \<in> set (title n). c \<noteq> 0x130 \<and> c \<noteq> 0x212A) \<longrightarrow>
        exportFilename format n = derive_spec (title n) @ js ''.'' @ format_name format"
    by (simp add: exportFilename_def filename_stem_map derive_spec_map)
  have c: "format_name Txt = js ''txt'' \<and> format_name Md = js ''md''"
    by (simp add: format_name_def)
  have d: "exportFilename Txt (n\<lparr>title := js ''Q1 Report!!''\<rparr>) = js ''q1_report__.txt''"
    by (simp add: exportFilename_def filename_stem_map stem_unit_def in_class_lower_alnum_def
        format_name_def js_def)
  from a b c d show ?thesis by blast
qed

theorem exportFilename_derivation_witness:
  "list_all (\<lambda>c. c \<noteq> 0x130 \<and> c \<noteq> 0x212A) (title tagged_note)
   \<and> exportFilename Md tagged_note = derive_spec (title tagged_note) @ js ''.'' @ format_name Md
   \<and> exportFilename Md tagged_note = js ''plan.md''"
proof -
  have h: "\<forall>c \<in> set (title tagged_note). c \<noteq> 0x130 \<and> c \<noteq> 0x212A"
    by (simp add: tagged_note_def js_def)
  have v: "map stem_unit (title tagged_note) @ js ''.'' @ format_name Md = js ''plan.md''"
    by (simp add: tagged_note_def stem_unit_def in_class_lower_alnum_def format_name_def js_def)
  note t = exportFilename_derivation [of Md tagged_note]
  from t h have e: "exportFilename Md tagged_note
      = derive_spec (title tagged_note) @ js ''.'' @ format_name Md"
    by blast
  from t have "exportFilename Md tagged_note
      = map stem_unit (title tagged_note) @ js ''.'' @ format_name Md"
    by blast
  with v have "exportFilename Md tagged_note = js ''plan.md''"
    by (simp only:)
  with h e show ?thesis by (simp only: list_all_iff simp_thms)
qed

text \<open>
  C5. Deriving the stem of a file name from an already derived stem gives that stem again,
  for the derivation of the export and for the derivation in the specification's order,
  and each leaves the other's stems as they are.
\<close>

theorem filename_stem_idempotent:
  "filename_stem (filename_stem s) = filename_stem s
   \<and> derive_spec (derive_spec s) = derive_spec s
   \<and> derive_spec (filename_stem s) = filename_stem s
   \<and> filename_stem (derive_spec s) = derive_spec s"
proof -
  have a: "filename_stem (filename_stem s) = filename_stem s"
    by (simp add: filename_stem_map stem_unit_idem)
  have b: "derive_spec (filename_stem s) = filename_stem s"
    by (simp add: filename_stem_map derive_spec_map stem_unit_plain stem_unit_idem)
  have c: "filename_stem (derive_spec s) = derive_spec s"
    unfolding filename_stem_map derive_spec_def by (simp add: stem_unit_underscore)
  from a b c derive_spec_idem show ?thesis by blast
qed

section \<open>Properties of the exported document\<close>

lemma concat_replicate_single: "concat (replicate k [x]) = replicate k x"
proof (induction k)
  case 0
  show ?case by simp
next
  case (Suc k)
  then show ?case by (simp only: replicate_Suc concat.simps append_Cons append_Nil)
qed

lemma repeat_js_length: "repeat_js [x] (int k) = Inr (replicate k x)"
  by (simp add: repeat_js_def concat_replicate_single)

lemma or_else_absent:
  "or_else None d = d" "or_else (Some []) d = d"
  by (simp_all add: or_else_def)

lemma js_equals_sign: "js ''='' = [0x3D]"
  by (simp add: js_def)

lemma exportContent_Txt:
  "exportContent Txt n =
     Inr (title n @ js ''\<newline>'' @ replicate (length (title n)) 0x3D
          @ js ''\<newline>\<newline>Summary:\<newline>'' @ or_else (summary n) (js ''No summary'')
          @ js ''\<newline>\<newline>'' @ keywords_text Txt (keywords_note n)
          @ js ''Original Content:\<newline>'' @ original_content n)"
  by (simp add: exportContent_def prop_read_def repeat_js_length js_equals_sign
      keywords_text_def split: option.splits)

lemma exportContent_Md:
  "exportContent Md n =
     Inr (js ''# '' @ title n @ js ''\<newline>\<newline>## Summary\<newline>\<newline>''
          @ or_else (summary n) (js ''No summary'')
          @ js ''\<newline>\<newline>'' @ keywords_text Md (keywords_note n)
          @ js ''## Original Content\<newline>\<newline>'' @ original_content n)"
  by (simp add: exportContent_def prop_read_def keywords_text_def split: option.splits)

lemma keywords_text_absent:
  "kws = None \<or> kws = Some [] \<Longrightarrow> keywords_text format kws = []"
  by (auto simp: keywords_text_def)

lemma exportContent_total: "\<exists>out. exportContent format n = Inr out"
  by (cases format) (simp_all only: exportContent_Txt exportContent_Md, blast+)

lemma exportContent_summary:
  assumes "or_else (summary n) (js ''No summary'') = or_else (summary m) (js ''No summary'')"
    and "title n = title m" and "keywords_note n = keywords_note m"
    and "original_content n = original_content m"
  shows "exportContent format n = exportContent format m"
  using assms by (cases format) (simp_all only: exportContent_Txt exportContent_Md)

lemma exportContent_Txt_absent:
  "keywords_note n = None \<or> keywords_note n = Some [] \<Longrightarrow>
   exportContent Txt n =
     Inr (title n @ 0x0A # replicate (length (title n)) 0x3D @ 0x0A # [] @ 0x0A # js ''Summary:''
          @ 0x0A # or_else (summary n) (js ''No summary'') @ 0x0A # [] @ 0x0A
          # js ''Original Content:'' @ 0x0A # original_content n)"
  by (simp add: exportContent_Txt keywords_text_absent) (simp add: js_def)

lemma exportContent_Txt_present:
  "keywords_note n = Some (k # ks) \<Longrightarrow>
   exportContent Txt n =
     Inr (title n @ 0x0A # replicate (length (title n)) 0x3D @ 0x0A # [] @ 0x0A # js ''Summary:''
          @ 0x0A # or_else (summary n) (js ''No summary'') @ 0x0A # [] @ 0x0A
          # (js ''Keywords: '' @ join (js '', '') (k # ks)) @ 0x0A # [] @ 0x0A
          # js ''Original Content:'' @ 0x0A # original_content n)"
  by (simp add: exportContent_Txt keywords_text_def) (simp add: js_def)

lemma exportContent_Md_absent:
  "keywords_note n = None \<or> keywords_note n = Some [] \<Longrightarrow>
   exportContent Md n =
     Inr ((0x23 # 0x20 # title n) @ 0x0A # [] @ 0x0A # js ''## Summary'' @ 0x0A # [] @ 0x0A
          # or_else (summary n) (js ''No summary'') @ 0x0A # [] @ 0x0A
          # js ''## Original Content'' @ 0x0A # [] @ 0x0A # original_content n)"
  by (simp add: exportContent_Md keywords_text_absent) (simp add: js_def)

lemma exportContent_Md_present:
  "keywords_note n = Some (k # ks) \<Longrightarrow>
   exportContent Md n =
     Inr ((0x23 # 0x20 # title n) @ 0x0A # [] @ 0x0A # js ''## Summary'' @ 0x0A # [] @ 0x0A
          # or_else (summary n) (js ''No summary'') @ 0x0A # [] @ 0x0A
          # js ''## Keywords'' @ 0x0A # [] @ 0x0A
          # join [0x0A] (map ((@) (js ''- '')) (k # ks)) @ 0x0A # [] @ 0x0A
          # js ''## Original Content'' @ 0x0A # [] @ 0x0A # original_content n)"
  by (simp add: exportContent_Md keywords_text_def) (simp add: js_def)

lemma split_lines_not_Nil [simp]: "split_lines s \<noteq> []"
  by (induction s) (auto split: list.splits)

lemma split_lines_Cons:
  "c \<noteq> 0x0A \<Longrightarrow> split_lines (c # s) = (c # hd (split_lines s)) # tl (split_lines s)"
  by (cases "split_lines s") simp_all

lemma split_lines_append_nl: "split_lines (a @ 0x0A # b) = split_lines a @ split_lines b"
proof (induction a)
  case Nil
  show ?case by simp
next
  case (Cons c a)
  show ?case
  proof (cases "c = 0x0A")
    case True
    with Cons show ?thesis by simp
  next
    case False
    with Cons show ?thesis
      by (simp only: append_Cons split_lines_Cons) (simp add: hd_append tl_append split: list.splits)
  qed
qed

lemma split_lines_plain: "0x0A \<notin> set w \<Longrightarrow> split_lines w = [w]"
  by (induction w) auto

lemma has_heading_append:
  "has_keywords_heading f (a @ 0x0A # b)
   \<longleftrightarrow> has_keywords_heading f a \<or> has_keywords_heading f b"
  by (simp add: has_keywords_heading_def split_lines_append_nl list_ex_iff) blast

lemma has_heading_plain:
  "0x0A \<notin> set w \<Longrightarrow> has_keywords_heading f w = keywords_heading f w"
  by (simp add: has_keywords_heading_def split_lines_plain)

lemma has_heading_underline: "\<not> has_keywords_heading f (replicate k 0x3D)"
  by (cases k; cases f) (simp_all add: has_heading_plain keywords_heading_def js_def)

lemma has_heading_literals:
  "\<not> has_keywords_heading f []"
  "\<not> has_keywords_heading f (js ''Summary:'')"
  "\<not> has_keywords_heading f (js ''Original Content:'')"
  "\<not> has_keywords_heading f (js ''## Summary'')"
  "\<not> has_keywords_heading f (js ''## Original Content'')"
  "\<not> has_keywords_heading f (js ''No summary'')"
  by (cases f; simp add: has_heading_plain keywords_heading_def js_def)+

lemma list_ex_tl: "list_ex P (tl xs) \<Longrightarrow> list_ex P xs"
  by (cases xs) simp_all

lemma has_heading_title_line:
  "has_keywords_heading Md (0x23 # 0x20 # t) \<Longrightarrow> has_keywords_heading Md t"
  by (auto simp: has_keywords_heading_def keywords_heading_def js_def split_lines_Cons
      simp del: split_lines.simps(2) dest: list_ex_tl)

lemma hd_split_lines_append:
  "0x0A \<notin> set w \<Longrightarrow> hd (split_lines (w @ s)) = w @ hd (split_lines s)"
  by (induction w) (simp_all add: split_lines_Cons del: split_lines.simps(2))

lemma list_ex_hd: "xs \<noteq> [] \<Longrightarrow> P (hd xs) \<Longrightarrow> list_ex P xs"
  by (cases xs) simp_all

lemma has_heading_Txt_line: "has_keywords_heading Txt (js ''Keywords: '' @ s)"
proof -
  have "0x0A \<notin> set (js ''Keywords: '')" by (simp add: js_def)
  then have "hd (split_lines (js ''Keywords: '' @ s)) = js ''Keywords: '' @ hd (split_lines s)"
    by (rule hd_split_lines_append)
  moreover have "keywords_heading Txt (js ''Keywords: '' @ hd (split_lines s))"
    by (simp add: keywords_heading_def js_def)
  ultimately show ?thesis
    unfolding has_keywords_heading_def by (intro list_ex_hd) simp_all
qed

lemma has_heading_Md_line: "has_keywords_heading Md (js ''## Keywords'')"
  by (simp add: has_heading_plain keywords_heading_def js_def)

lemma no_heading_body:
  "no_heading_in_fields f n \<Longrightarrow> \<not> has_keywords_heading f (or_else (summary n) (js ''No summary''))"
  by (auto simp: no_heading_in_fields_def or_else_def has_heading_literals split: option.splits)

lemma absent_no_heading:
  assumes "keywords_note n = None \<or> keywords_note n = Some []"
    and "no_heading_in_fields f n"
    and "exportContent f n = Inr out"
  shows "\<not> has_keywords_heading f out"
proof (cases f)
  case Txt
  with assms(2) have "\<not> has_keywords_heading Txt (title n)"
    "\<not> has_keywords_heading Txt (or_else (summary n) (js ''No summary''))"
    "\<not> has_keywords_heading Txt (original_content n)"
    by (simp_all add: no_heading_body) (simp_all add: no_heading_in_fields_def)
  with assms(3) Txt show ?thesis
    unfolding Txt exportContent_Txt_absent [OF assms(1)]
    by (auto simp only: has_heading_append has_heading_underline has_heading_literals sum.inject)
next
  case Md
  with assms(2) have "\<not> has_keywords_heading Md (title n)"
    "\<not> has_keywords_heading Md (or_else (summary n) (js ''No summary''))"
    "\<not> has_keywords_heading Md (original_content n)"
    by (simp_all add: no_heading_body) (simp_all add: no_heading_in_fields_def)
  with assms(3) Md show ?thesis
    unfolding Md exportContent_Md_absent [OF assms(1)]
    by (auto simp only: has_heading_append has_heading_underline has_heading_literals sum.inject
        dest: has_heading_title_line)
qed

lemma present_heading:
  assumes "keywords_note n = Some (k # ks)" and "exportContent f n = Inr out"
  shows "has_keywords_heading f out"
proof (cases f)
  case Txt
  with assms(2) show ?thesis
    unfolding Txt exportContent_Txt_present [OF assms(1)]
    by (auto simp only: has_heading_append has_heading_Txt_line sum.inject)
next
  case Md
  with assms(2) show ?thesis
    unfolding Md exportContent_Md_present [OF assms(1)]
    by (auto simp only: has_heading_append has_heading_Md_line sum.inject)
qed

lemma handleExport_total: "\<exists>effects. handleExport format st = Inr effects"
proof (cases st)
  case None
  then show ?thesis by (simp add: handleExport_def)
next
  case (Some n)
  from exportContent_total obtain out where "exportContent format n = Inr out" by blast
  with Some show ?thesis by (simp add: handleExport_def Let_def)
qed

text \<open>
  C3. For a note whose keyword list is null or empty, the plain-text and the Markdown
  document consist of the title part, the summary part and the original content, with
  nothing in between; and when no line of the note's own text looks like the heading of a
  keyword section (a line beginning \<open>Keywords:\<close> in plain text, the line \<open>## Keywords\<close>
  in Markdown), no line of the document does. For a non-empty keyword list the document
  holds the keyword section, with its heading, before the original content.
\<close>

theorem export_keywords_section:
  "((keywords_note n = None \<or> keywords_note n = Some []) \<longrightarrow>
      exportContent Txt n =
        Inr (title n @ js ''\<newline>'' @ replicate (length (title n)) 0x3D
             @ js ''\<newline>\<newline>Summary:\<newline>'' @ or_else (summary n) (js ''No summary'')
             @ js ''\<newline>\<newline>'' @ js ''Original Content:\<newline>'' @ original_content n)
      \<and> exportContent Md n =
        Inr (js ''# '' @ title n @ js ''\<newline>\<newline>## Summary\<newline>\<newline>''
             @ or_else (summary n) (js ''No summary'') @ js ''\<newline>\<newline>''
             @ js ''## Original Content\<newline>\<newline>'' @ original_content n)
      \<and> (no_heading_in_fields format n \<longrightarrow>
           (\<exists>out. exportContent format n = Inr out \<and> \<not> has_keywords_heading format out)))
   \<and> (keywords_note n = Some ks \<and> ks \<noteq> [] \<longrightarrow>
      exportContent Txt n =
        Inr (title n @ js ''\<newline>'' @ replicate (length (title n)) 0x3D
             @ js ''\<newline>\<newline>Summary:\<newline>'' @ or_else (summary n) (js ''No summary'')
             @ js ''\<newline>\<newline>''
             @ js ''Keywords: '' @ join (js '', '') ks @ js ''\<newline>\<newline>''
             @ js ''Original Content:\<newline>'' @ original_content n)
      \<and> exportContent Md n =
        Inr (js ''# '' @ title n @ js ''\<newline>\<newline>## Summary\<newline>\<newline>''
             @ or_else (summary n) (js ''No summary'') @ js ''\<newline>\<newline>''
             @ js ''## Keywords\<newline>\<newline>''
             @ join (js ''\<newline>'') (map (\<lambda>k. js ''- '' @ k) ks) @ js ''\<newline>\<newline>''
             @ js ''## Original Content\<newline>\<newline>'' @ original_content n)
      \<and> (\<exists>out. exportContent format n = Inr out \<and> has_keywords_heading format out))"
proof (intro conjI impI)
  assume absent: "keywords_note n = None \<or> keywords_note n = Some []"
  show "exportContent Txt n =
        Inr (title n @ js ''\<newline>'' @ replicate (length (title n)) 0x3D
             @ js ''\<newline>\<newline>Summary:\<newline>'' @ or_else (summary n) (js ''No summary'')
             @ js ''\<newline>\<newline>'' @ js ''Original Content:\<newline>'' @ original_content n)"
    by (simp add: exportContent_Txt keywords_text_absent [OF absent])
  show "exportContent Md n =
        Inr (js ''# '' @ title n @ js ''\<newline>\<newline>## Summary\<newline>\<newline>''
             @ or_else (summary n) (js ''No summary'') @ js ''\<newline>\<newline>''
             @ js ''## Original Content\<newline>\<newline>'' @ original_content n)"
    by (simp add: exportContent_Md keywords_text_absent [OF absent])
  assume plain: "no_heading_in_fields format n"
  from exportContent_total obtain out where out: "exportContent format n = Inr out" by blast
  with absent plain have "\<not> has_keywords_heading format out" by (rule absent_no_heading)
  with out show "\<exists>out. exportContent format n = Inr out \<and> \<not> has_keywords_heading format out"
    by blast
next
  assume present: "keywords_note n = Some ks \<and> ks \<noteq> []"
  then obtain k ks' where ks: "ks = k # ks'" by (cases ks) auto
  from present show "exportContent Txt n =
        Inr (title n @ js ''\<newline>'' @ replicate (length (title n)) 0x3D
             @ js ''\<newline>\<newline>Summary:\<newline>'' @ or_else (summary n) (js ''No summary'')
             @ js ''\<newline>\<newline>''
             @ js ''Keywords: '' @ join (js '', '') ks @ js ''\<newline>\<newline>''
             @ js ''Original Content:\<newline>'' @ original_content n)"
    by (simp add: exportContent_Txt keywords_text_def)
  from present show "exportContent Md n =
        Inr (js ''# '' @ title n @ js ''\<newline>\<newline>## Summary\<newline>\<newline>''
             @ or_else (summary n) (js ''No summary'') @ js ''\<newline>\<newline>''
             @ js ''## Keywords\<newline>\<newline>''
             @ join (js ''\<newline>'') (map (\<lambda>k. js ''- '' @ k) ks) @ js ''\<newline>\<newline>''
             @ js ''## Original Content\<newline>\<newline>'' @ original_content n)"
    by (simp add: exportContent_Md keywords_text_def)
  from exportContent_total obtain out where out: "exportContent format n = Inr out" by blast
  from present ks have "keywords_note n = Some (k # ks')" by simp
  then have "has_keywords_heading format out" using out by (rule present_heading)
  with out show "\<exists>out. exportContent format n = Inr out \<and> has_keywords_heading format out"
    by blast
qed

theorem export_keywords_section_witness:
  "keywords_note example_note = None \<and> no_heading_in_fields Txt example_note
   \<and> exportContent Txt example_note =
       Inr (js ''Q1 Report!!\<newline>===========\<newline>\<newline>Summary:\<newline>No summary\<newline>\<newline>Original Content:\<newline>Revenue grew.'')
   \<and> (\<exists>out. exportContent Txt example_note = Inr out \<and> \<not> has_keywords_heading Txt out)
   \<and> keywords_note tagged_note = Some [js ''ship'', js ''plan''] \<and> [js ''ship'', js ''plan''] \<noteq> []
   \<and> exportContent Md tagged_note =
       Inr (js ''# Plan\<newline>\<newline>## Summary\<newline>\<newline>No summary\<newline>\<newline>## Keywords\<newline>\<newline>- ship\<newline>- plan\<newline>\<newline>## Original Content\<newline>\<newline>Ship it.'')
   \<and> (\<exists>out. exportContent Md tagged_note = Inr out \<and> has_keywords_heading Md out)"
proof -
  have a: "keywords_note example_note = None" by (simp add: example_note_def)
  have b: "no_heading_in_fields Txt example_note"
    by (simp add: example_note_def no_heading_in_fields_def has_heading_plain
        keywords_heading_def js_def)
  have c: "keywords_note tagged_note = Some [js ''ship'', js ''plan'']"
    by (simp add: tagged_note_def)
  note absent = export_keywords_section [of example_note Txt]
  note present = export_keywords_section [of tagged_note Md "[js ''ship'', js ''plan'']"]
  from absent a have "exportContent Txt example_note =
        Inr (title example_note @ js ''\<newline>'' @ replicate (length (title example_note)) 0x3D
             @ js ''\<newline>\<newline>Summary:\<newline>''
             @ or_else (summary example_note) (js ''No summary'')
             @ js ''\<newline>\<newline>'' @ js ''Original Content:\<newline>''
             @ original_content example_note)"
    by blast
  then have d: "exportContent Txt example_note =
       Inr (js ''Q1 Report!!\<newline>===========\<newline>\<newline>Summary:\<newline>No summary\<newline>\<newline>Original Content:\<newline>Revenue grew.'')"
    by (simp add: example_note_def or_else_def js_def)
  from absent a b
  have e: "\<exists>out. exportContent Txt example_note = Inr out \<and> \<not> has_keywords_heading Txt out"
    by blast
  from present c have "exportContent Md tagged_note =
        Inr (js ''# '' @ title tagged_note @ js ''\<newline>\<newline>## Summary\<newline>\<newline>''
             @ or_else (summary tagged_note) (js ''No summary'') @ js ''\<newline>\<newline>''
             @ js ''## Keywords\<newline>\<newline>''
             @ join (js ''\<newline>'') (map (\<lambda>k. js ''- '' @ k) [js ''ship'', js ''plan''])
             @ js ''\<newline>\<newline>''
             @ js ''## Original Content\<newline>\<newline>'' @ original_content tagged_note)"
    by blast
  then have f: "exportContent Md tagged_note =
       Inr (js ''# Plan\<newline>\<newline>## Summary\<newline>\<newline>No summary\<newline>\<newline>## Keywords\<newline>\<newline>- ship\<newline>- plan\<newline>\<newline>## Original Content\<newline>\<newline>Ship it.'')"
    by (simp add: tagged_note_def or_else_def js_def)
  from present c
  have g: "\<exists>out. exportContent Md tagged_note = Inr out \<and> has_keywords_heading Md out"
    by blast
  from a b c d e f g show ?thesis by blast
qed

text \<open>
  C4. The export never throws: for every note and both formats the document is built, and
  \<open>handleExport\<close> finishes with its effects, whatever the summary and the keyword list
  are. For a note without a summary the document has the text \<open>No summary\<close> where the
  summary stands: it is the document of the same note with the summary \<open>No summary\<close>.
\<close>

theorem export_total:
  "(\<exists>out. exportContent format n = Inr out)
   \<and> (\<exists>effects. handleExport format st = Inr effects)
   \<and> (summary n = None \<longrightarrow>
        exportContent format n = exportContent format (n\<lparr>summary := Some (js ''No summary'')\<rparr>)
        \<and> exportContent Txt n =
            Inr (title n @ js ''\<newline>'' @ replicate (length (title n)) 0x3D
                 @ js ''\<newline>\<newline>Summary:\<newline>'' @ js ''No summary''
                 @ js ''\<newline>\<newline>'' @ keywords_text Txt (keywords_note n)
                 @ js ''Original Content:\<newline>'' @ original_content n)
        \<and> exportContent Md n =
            Inr (js ''# '' @ title n @ js ''\<newline>\<newline>## Summary\<newline>\<newline>''
                 @ js ''No summary''
                 @ js ''\<newline>\<newline>'' @ keywords_text Md (keywords_note n)
                 @ js ''## Original Content\<newline>\<newline>'' @ original_content n))"
proof (intro conjI impI)
  show "\<exists>out. exportContent format n = Inr out" by (rule exportContent_total)
  show "\<exists>effects. handleExport format st = Inr effects" by (rule handleExport_total)
next
  assume none: "summary n = None"
  have "js ''No summary'' \<noteq> []" by (simp add: js_def)
  with none show "exportContent format n
      = exportContent format (n\<lparr>summary := Some (js ''No summary'')\<rparr>)"
    by (intro exportContent_summary) (simp_all add: or_else_def)
  from none show "exportContent Txt n =
            Inr (title n @ js ''\<newline>'' @ replicate (length (title n)) 0x3D
                 @ js ''\<newline>\<newline>Summary:\<newline>'' @ js ''No summary''
                 @ js ''\<newline>\<newline>'' @ keywords_text Txt (keywords_note n)
                 @ js ''Original Content:\<newline>'' @ original_content n)"
    by (simp only: exportContent_Txt or_else_absent)
  from none show "exportContent Md n =
            Inr (js ''# '' @ title n @ js ''\<newline>\<newline>## Summary\<newline>\<newline>''
                 @ js ''No summary''
                 @ js ''\<newline>\<newline>'' @ keywords_text Md (keywords_note n)
                 @ js ''## Original Content\<newline>\<newline>'' @ original_content n)"
    by (simp only: exportContent_Md or_else_absent)
qed

theorem export_total_witness:
  "summary example_note = None
   \<and> exportContent Md example_note =
       Inr (js ''# Q1 Report!!\<newline>\<newline>## Summary\<newline>\<newline>No summary\<newline>\<newline>## Original Content\<newline>\<newline>Revenue grew.'')
   \<and> exportContent Md example_note
       = exportContent Md (example_note\<lparr>summary := Some (js ''No summary'')\<rparr>)"
proof -
  have a: "summary example_note = None" by (simp add: example_note_def)
  note t = export_total [of Md example_note None]
  from t a have "exportContent Md example_note =
            Inr (js ''# '' @ title example_note @ js ''\<newline>\<newline>## Summary\<newline>\<newline>''
                 @ js ''No summary''
                 @ js ''\<newline>\<newline>'' @ keywords_text Md (keywords_note example_note)
                 @ js ''## Original Content\<newline>\<newline>'' @ original_content example_note)"
    by blast
  then have b: "exportContent Md example_note =
       Inr (js ''# Q1 Report!!\<newline>\<newline>## Summary\<newline>\<newline>No summary\<newline>\<newline>## Original Content\<newline>\<newline>Revenue grew.'')"
    by (simp add: example_note_def keywords_text_def js_def)
  from t a have c: "exportContent Md example_note
       = exportContent Md (example_note\<lparr>summary := Some (js ''No summary'')\<rparr>)"
    by blast
  from a b c show ?thesis by blast
qed

text \<open>
  C9. An empty summary is exported as a missing one: for a note whose summary is the empty
  string, both documents have \<open>No summary\<close> where the summary stands and are the
  documents of the same note without a summary.
\<close>

theorem export_empty_summary:
  "summary n = Some [] \<longrightarrow>
     exportContent format n = exportContent format (n\<lparr>summary := None\<rparr>)
     \<and> exportContent Txt n =
         Inr (title n @ js ''\<newline>'' @ replicate (length (title n)) 0x3D
              @ js ''\<newline>\<newline>Summary:\<newline>'' @ js ''No summary''
              @ js ''\<newline>\<newline>'' @ keywords_text Txt (keywords_note n)
              @ js ''Original Content:\<newline>'' @ original_content n)
     \<and> exportContent Md n =
         Inr (js ''# '' @ title n @ js ''\<newline>\<newline>## Summary\<newline>\<newline>''
              @ js ''No summary''
              @ js ''\<newline>\<newline>'' @ keywords_text Md (keywords_note n)
              @ js ''## Original Content\<newline>\<newline>'' @ original_content n)"
proof (intro conjI impI)
  assume empty: "summary n = Some []"
  then show "exportContent format n = exportContent format (n\<lparr>summary := None\<rparr>)"
    by (intro exportContent_summary) (simp_all add: or_else_def)
  from empty show "exportContent Txt n =
         Inr (title n @ js ''\<newline>'' @ replicate (length (title n)) 0x3D
              @ js ''\<newline>\<newline>Summary:\<newline>'' @ js ''No summary''
              @ js ''\<newline>\<newline>'' @ keywords_text Txt (keywords_note n)
              @ js ''Original Content:\<newline>'' @ original_content n)"
    by (simp only: exportContent_Txt or_else_absent)
  from empty show "exportContent Md n =
         Inr (js ''# '' @ title n @ js ''\<newline>\<newline>## Summary\<newline>\<newline>''
              @ js ''No summary''
              @ js ''\<newline>\<newline>'' @ keywords_text Md (keywords_note n)
              @ js ''## Original Content\<newline>\<newline>'' @ original_content n)"
    by (simp only: exportContent_Md or_else_absent)
qed

theorem export_empty_summary_witness:
  "summary tagged_note = Some []
   \<and> exportContent Txt tagged_note =
       Inr (js ''Plan\<newline>====\<newline>\<newline>Summary:\<newline>No summary\<newline>\<newline>Keywords: ship, plan\<newline>\<newline>Original Content:\<newline>Ship it.'')
   \<and> exportContent Txt tagged_note = exportContent Txt (tagged_note\<lparr>summary := None\<rparr>)"
proof -
  have a: "summary tagged_note = Some []" by (simp add: tagged_note_def)
  note t = export_empty_summary [of tagged_note Txt]
  from t a have "exportContent Txt tagged_note =
         Inr (title tagged_note @ js ''\<newline>'' @ replicate (length (title tagged_note)) 0x3D
              @ js ''\<newline>\<newline>Summary:\<newline>'' @ js ''No summary''
              @ js ''\<newline>\<newline>'' @ keywords_text Txt (keywords_note tagged_note)
              @ js ''Original Content:\<newline>'' @ original_content tagged_note)"
    by blast
  then have b: "exportContent Txt tagged_note =
       Inr (js ''Plan\<newline>====\<newline>\<newline>Summary:\<newline>No summary\<newline>\<newline>Keywords: ship, plan\<newline>\<newline>Original Content:\<newline>Ship it.'')"
    by (simp add: tagged_note_def keywords_text_def js_def)
  from t a
  have c: "exportContent Txt tagged_note = exportContent Txt (tagged_note\<lparr>summary := None\<rparr>)"
    by blast
  from a b c show ?thesis by blast
qed

section \<open>Properties of fetching a note\<close>

lemma single_Inr_iff: "single rows = Inr d \<longleftrightarrow> rows = [d]"
  by (auto simp: single_def split: list.splits)

lemma scoped_query_owner:
  assumes "single (eq_user_id u (eq_id i rows)) = Inr d"
  shows "user_id d = u \<and> id_note d = i \<and> d \<in> set rows"
proof -
  from assms have "eq_user_id u (eq_id i rows) = [d]" by (simp add: single_Inr_iff)
  then have "d \<in> set (eq_user_id u (eq_id i rows))" by simp
  then show ?thesis by (simp add: eq_user_id_def eq_id_def)
qed

lemma primary_key_unique:
  "primary_key tbl \<Longrightarrow> r \<in> set tbl \<Longrightarrow> d \<in> set tbl \<Longrightarrow> id_note d = id_note r \<Longrightarrow> d = r"
  by (simp add: primary_key_def distinct_map inj_on_def)

lemma fetchNote_owner:
  assumes "note_st (fst (fetchNote tbl (Some b) i st)) = Some d"
  shows "note_st st = Some d \<or> (user_id d = id_user b \<and> Some (id_note d) = i \<and> d \<in> set tbl)"
  using assms
  by (auto simp: fetchNote_def visible_notes_def split: option.splits if_splits sum.splits
      dest!: scoped_query_owner)

lemma fetchNote_not_found:
  assumes "r \<in> set tbl" "user_id r \<noteq> id_user b" "primary_key tbl" "id_note r \<noteq> []"
  shows "fetchNote tbl (Some b) (Some (id_note r)) st =
           (st\<lparr>loading := False\<rparr>,
            [ConsoleError (js ''Error fetching note:''), Navigate (js ''/notes'')])"
proof (cases "single (eq_user_id (id_user b) (eq_id (id_note r) (visible_notes (id_user b) tbl)))")
  case (Inl e)
  with assms(4) show ?thesis by (simp add: fetchNote_def)
next
  case (Inr d)
  then have "user_id d = id_user b" "id_note d = id_note r" "d \<in> set tbl"
    by (auto dest!: scoped_query_owner simp: visible_notes_def)
  with assms(1,3) have "d = r" using primary_key_unique by blast
  with \<open>user_id d = id_user b\<close> assms(2) show ?thesis by simp
qed

text \<open>
  C6. Let a note be owned by one identity and the session belong to another. The query as
  the page scopes it, by \<open>id\<close> and by the session's \<open>user_id\<close>, does not return the note
  from any set of rows, so \<open>fetchNote\<close> never puts it into the page's state, whatever
  \<open>id\<close> is supplied. With the table's primary key and the note's own (non-empty) id
  supplied, the fetch is an error: the page logs it, navigates to the list view and leaves
  the note of its state as it was.
\<close>

theorem fetchNote_other_owner:
  "r \<in> set tbl \<and> user_id r \<noteq> id_user b \<longrightarrow>
     single (eq_user_id (id_user b) (eq_id i rows)) \<noteq> Inr r
     \<and> (note_st (fst (fetchNote tbl (Some b) (Some i) st)) = Some r \<longrightarrow> note_st st = Some r)
     \<and> (primary_key tbl \<and> id_note r \<noteq> [] \<longrightarrow>
          fetchNote tbl (Some b) (Some (id_note r)) st =
            (st\<lparr>loading := False\<rparr>,
             [ConsoleError (js ''Error fetching note:''), Navigate (js ''/notes'')]))"
proof (intro impI conjI)
  assume h: "r \<in> set tbl \<and> user_id r \<noteq> id_user b"
  show "single (eq_user_id (id_user b) (eq_id i rows)) \<noteq> Inr r"
    using h scoped_query_owner by blast
  show "note_st st = Some r" if "note_st (fst (fetchNote tbl (Some b) (Some i) st)) = Some r"
    using h fetchNote_owner [OF that] by blast
  show "fetchNote tbl (Some b) (Some (id_note r)) st =
            (st\<lparr>loading := False\<rparr>,
             [ConsoleError (js ''Error fetching note:''), Navigate (js ''/notes'')])"
    if "primary_key tbl \<and> id_note r \<noteq> []"
    using h that fetchNote_not_found by blast
qed

theorem fetchNote_other_owner_witness:
  "example_note \<in> set [example_note, tagged_note]
   \<and> user_id example_note \<noteq> id_user bob
   \<and> primary_key [example_note, tagged_note] \<and> id_note example_note \<noteq> []
   \<and> fetchNote [example_note, tagged_note] (Some bob) (Some (js ''6f1c''))
        \<lparr>note_st = None, loading = True, copied_st = False\<rparr>
      = (\<lparr>note_st = None, loading = False, copied_st = False\<rparr>,
         [ConsoleError (js ''Error fetching note:''), Navigate (js ''/notes'')])"
proof -
  have a: "example_note \<in> set [example_note, tagged_note]" by simp
  have b: "user_id example_note \<noteq> id_user bob"
    by (simp add: example_note_def bob_def js_def)
  have c: "primary_key [example_note, tagged_note]"
    by (simp add: primary_key_def example_note_def tagged_note_def js_def)
  have d: "id_note example_note \<noteq> []" by (simp add: example_note_def js_def)
  have e: "id_note example_note = js ''6f1c''" by (simp add: example_note_def)
  from a b c d
    fetchNote_other_owner [of example_note "[example_note, tagged_note]" bob "js ''6f1c''" "[]"
      "\<lparr>note_st = None, loading = True, copied_st = False\<rparr>"]
  have "fetchNote [example_note, tagged_note] (Some bob) (Some (id_note example_note))
        \<lparr>note_st = None, loading = True, copied_st = False\<rparr>
      = (\<lparr>note_st = None, loading = True, copied_st = False\<rparr>\<lparr>loading := False\<rparr>,
         [ConsoleError (js ''Error fetching note:''), Navigate (js ''/notes'')])"
    by blast
  with e have "fetchNote [example_note, tagged_note] (Some bob) (Some (js ''6f1c''))
        \<lparr>note_st = None, loading = True, copied_st = False\<rparr>
      = (\<lparr>note_st = None, loading = False, copied_st = False\<rparr>,
         [ConsoleError (js ''Error fetching note:''), Navigate (js ''/notes'')])"
    by simp
  with a b c d show ?thesis by blast
qed

section \<open>Properties of requesting a summary\<close>

lemma dropWhile_all: "(\<forall>x \<in> set (dropWhile P s). P x) \<longleftrightarrow> (\<forall>x \<in> set s. P x)"
  by (induction s) auto

lemma trim_Nil_iff: "trim s = [] \<longleftrightarrow> (\<forall>c \<in> set s. is_white_space c)"
  by (simp add: trim_def dropWhile_all)

lemma blank_content_rejected:
  assumes "\<forall>c \<in> set (content st). is_white_space c"
  shows "handleSummarize resp st =
           (st, [Toast (js ''Content required'')
                   (Some (js ''Please enter some text to summarize.'')) Destructive])"
  using assms by (simp add: handleSummarize_def content_missing_def trim_Nil_iff)

lemma handleSummarize_failed:
  assumes "\<not> content_missing st" "summarize_try resp = Inl err"
  shows "handleSummarize resp st =
           (st\<lparr>isProcessing := False, result := None\<rparr>,
            [Invoke (js ''summarize'')
               \<lparr>body_content = content st, body_length = summaryLength st,
                body_tone = summaryTone st, body_bulletPoints = isBulletPoints st\<rparr>,
             ConsoleError (js ''Summarization error:''),
             Toast (js ''Summarization failed'')
               (Some (or_else (Some (message err)) (js ''An error occurred while summarizing.'')))
               Destructive])"
  using assms by (simp add: handleSummarize_def summarize_request_def summarize_settle_def)

lemma summarize_try_error:
  "error resp = Some e \<Longrightarrow> summarize_try resp = Inl (ThrownFunctionsError e)"
  by (simp add: summarize_try_def)

lemma summarize_try_null:
  "error resp = None \<Longrightarrow> data resp = None \<Longrightarrow> summarize_try resp = Inl ThrownTypeError"
  by (simp add: summarize_try_def)

text \<open>
  When the client reports an error (a transport failure or an error of the function), or
  the response has no body, the page shows one error notification, has issued the request
  once, and keeps the draft: the content and the three options.
\<close>

lemma handleSummarize_failure_reported:
  assumes "\<not> content_missing st" "error resp \<noteq> None \<or> data resp = None"
  shows "list_ex is_error_toast (snd (handleSummarize resp st))
         \<and> length (filter is_invoke (snd (handleSummarize resp st))) = 1
         \<and> content (fst (handleSummarize resp st)) = content st
         \<and> summaryLength (fst (handleSummarize resp st)) = summaryLength st
         \<and> summaryTone (fst (handleSummarize resp st)) = summaryTone st
         \<and> isBulletPoints (fst (handleSummarize resp st)) = isBulletPoints st
         \<and> isProcessing (fst (handleSummarize resp st)) = False"
proof -
  from assms(2) obtain err where "summarize_try resp = Inl err"
    using summarize_try_error summarize_try_null by (cases "error resp") auto
  with assms(1) show ?thesis
    by (simp add: handleSummarize_failed is_error_toast_def is_invoke_def)
qed

lemma draft_content: "\<not> content_missing draft"
  by (simp add: content_missing_def draft_def trim_def js_def is_white_space_def)

text \<open>
  C7. When the draft content is empty or white space only, \<open>handleSummarize\<close> shows the
  validation notification \<open>Content required\<close> and nothing else: whatever the remote
  function would answer, no call is issued and the state of the page, with the content,
  the options and the result, is as before.
\<close>

theorem handleSummarize_blank_content:
  "(\<forall>c \<in> set (content st). is_white_space c) \<longrightarrow>
     handleSummarize resp st =
       (st, [Toast (js ''Content required'')
               (Some (js ''Please enter some text to summarize.'')) Destructive])
     \<and> \<not> list_ex is_invoke (snd (handleSummarize resp st))
     \<and> fst (handleSummarize resp st) = st"
  by (simp add: blank_content_rejected is_invoke_def)

theorem handleSummarize_blank_content_witness:
  "list_all is_white_space (content (draft\<lparr>content := [0x20, 0x0A, 0x09]\<rparr>))
   \<and> handleSummarize fields_missing (draft\<lparr>content := [0x20, 0x0A, 0x09]\<rparr>) =
       (draft\<lparr>content := [0x20, 0x0A, 0x09]\<rparr>,
        [Toast (js ''Content required'')
           (Some (js ''Please enter some text to summarize.'')) Destructive])"
proof -
  have a: "\<forall>c \<in> set (content (draft\<lparr>content := [0x20, 0x0A, 0x09]\<rparr>)). is_white_space c"
    by (simp add: is_white_space_def)
  with handleSummarize_blank_content [of "draft\<lparr>content := [0x20, 0x0A, 0x09]\<rparr>" fields_missing]
  show ?thesis by (simp only: list_all_iff simp_thms)
qed

text \<open>
  C8 asks that a response without the expected fields be reported as an error. It is not:
  for the draft \<open>The quick brown fox\<close> and a response whose body has none of \<open>title\<close>,
  \<open>summary\<close> and \<open>keywords\<close>, \<open>handleSummarize\<close> stores a result with the three fields
  undefined and shows the notification \<open>Summary generated!\<close>; no error notification is
  shown, and the page's render then throws on \<open>result.keywords.length\<close>.
\<close>

theorem handleSummarize_fields_missing:
  "handleSummarize fields_missing draft =
     (draft\<lparr>result := Some \<lparr>result_title = None, result_summary = None,
                            result_keywords = None\<rparr>\<rparr>,
      [Invoke (js ''summarize'')
         \<lparr>body_content = js ''The quick brown fox'', body_length = Short,
          body_tone = Casual, body_bulletPoints = False\<rparr>,
       Toast (js ''Summary generated!'')
         (Some (js ''Your content has been summarized successfully.'')) Default])
   \<and> \<not> list_ex is_error_toast (snd (handleSummarize fields_missing draft))
   \<and> render_keywords (fst (handleSummarize fields_missing draft)) = Inl TypeError"
proof -
  have "handleSummarize fields_missing draft =
     (draft\<lparr>result := Some \<lparr>result_title = None, result_summary = None,
                            result_keywords = None\<rparr>\<rparr>,
      [Invoke (js ''summarize'')
         \<lparr>body_content = js ''The quick brown fox'', body_length = Short,
          body_tone = Casual, body_bulletPoints = False\<rparr>,
       Toast (js ''Summary generated!'')
         (Some (js ''Your content has been summarized successfully.'')) Default])"
    using draft_content
    by (simp add: handleSummarize_def summarize_request_def summarize_settle_def
        summarize_try_def fields_missing_def) (simp add: draft_def)
  then show ?thesis
    by (simp add: is_error_toast_def render_keywords_def prop_read_def draft_def)
qed

text \<open>
  C10. Once the content passes the validation, \<open>handleSummarize\<close> clears the result
  before the request is issued: the state in which the request is pending has no result.
  When the request then fails, by an error of the client or a thrown \<open>TypeError\<close>, the
  result stays cleared, also when there was one before.
\<close>

theorem handleSummarize_discards_result:
  "\<not> content_missing st \<longrightarrow>
     result (fst (summarize_request st)) = None
     \<and> (summarize_try resp = Inl err \<longrightarrow>
          fst (handleSummarize resp st) = st\<lparr>isProcessing := False, result := None\<rparr>)
     \<and> (error resp \<noteq> None \<or> data resp = None \<longrightarrow>
          result (fst (handleSummarize resp st)) = None)"
proof (intro impI conjI)
  assume ok: "\<not> content_missing st"
  show "result (fst (summarize_request st)) = None"
    by (simp add: summarize_request_def)
  show "fst (handleSummarize resp st) = st\<lparr>isProcessing := False, result := None\<rparr>"
    if "summarize_try resp = Inl err"
    using ok that by (simp add: handleSummarize_failed)
  show "result (fst (handleSummarize resp st)) = None"
    if "error resp \<noteq> None \<or> data resp = None"
  proof -
    from that obtain e where "summarize_try resp = Inl e"
      using summarize_try_error summarize_try_null by (cases "error resp") auto
    with ok show ?thesis by (simp add: handleSummarize_failed)
  qed
qed

theorem handleSummarize_discards_result_witness:
  "\<not> content_missing (draft\<lparr>result := Some \<lparr>result_title = Some (js ''Fox''),
        result_summary = Some (js ''A fox jumps.''), result_keywords = Some [js ''fox'']\<rparr>\<rparr>)
   \<and> error \<lparr>data = None, error = Some (FunctionsFetchError (js ''Failed to fetch''))\<rparr> \<noteq> None
   \<and> result (draft\<lparr>result := Some \<lparr>result_title = Some (js ''Fox''),
        result_summary = Some (js ''A fox jumps.''), result_keywords = Some [js ''fox'']\<rparr>\<rparr>)
       \<noteq> None
   \<and> result (fst (handleSummarize
        \<lparr>data = None, error = Some (FunctionsFetchError (js ''Failed to fetch''))\<rparr>
        (draft\<lparr>result := Some \<lparr>result_title = Some (js ''Fox''),
           result_summary = Some (js ''A fox jumps.''),
           result_keywords = Some [js ''fox'']\<rparr>\<rparr>))) = None"
proof -
  let ?st = "draft\<lparr>result := Some \<lparr>result_title = Some (js ''Fox''),
        result_summary = Some (js ''A fox jumps.''), result_keywords = Some [js ''fox'']\<rparr>\<rparr>"
  let ?resp = "\<lparr>data = None, error = Some (FunctionsFetchError (js ''Failed to fetch''))\<rparr>"
  have a: "\<not> content_missing ?st"
    using draft_content by (simp add: content_missing_def)
  have b: "error ?resp \<noteq> None" by simp
  have c: "result ?st \<noteq> None" by simp
  from a b handleSummarize_discards_result [of ?st ?resp]
  have "result (fst (handleSummarize ?resp ?st)) = None" by blast
  with a b c show ?thesis by blast
qed

end
